theory Spec2Isabelle
  imports
    Complex_Main
    "HOL-Library.Multiset"
    "HOL-Library.Sublist"
    "HOL-Library.Char_ord"
    "HOL-Library.List_Lexorder"
    "HOL-Library.Product_Lexorder"
begin

section \<open>The WHO tobacco and mortality dashboard (app.py)\<close>

text \<open>
  The script reads two spreadsheets with pandas, filters and renames their columns,
  and computes grouped means, top-5 rankings and a linear trend per sex for a selected
  country. A data frame is modelled as the list of its rows, a row as a record of its
  cells. A text cell is a \<open>string option\<close> and a numeric cell a \<open>real option\<close>:
  \<open>None\<close> is the missing cell (pandas' NaN). A number that is present is a real;
  sums and quotients of the grouped means are taken over the reals. An integer column is
  64 bits wide and wraps. An exception of the Python code is a value \<open>Inl e\<close> of a
  sum type.
\<close>

datatype py_error =
    IntCastingNaNError  \<comment> \<open>\<open>astype(int)\<close> on a column holding NaN\<close>
  | TypeError           \<comment> \<open>\<open>np.polyfit\<close>: expected non-empty vector for x\<close>
  | LinAlgError         \<comment> \<open>\<open>np.linalg.lstsq\<close>: SVD did not converge (NaN in the matrix)\<close>

subsection \<open>Rows\<close>

text \<open>
  The columns the loaders leave alone are common to a sheet row and a loaded row; the
  loaders rename \<open>setting\<close>, \<open>date\<close>, \<open>subgroup\<close> and \<open>estimate\<close>. The
  tobacco sheet carries the income column \<open>wbincome2024\<close>, the mortality sheet
  \<open>wbincome2023\<close>.
\<close>

record row_common =
  indicator_name :: "string option"
  iso3 :: "string option"
  wbincome2024 :: "string option"
  wbincome2023 :: "string option"

record raw_row = row_common +
  setting :: "string option"
  date :: "real option"
  subgroup :: "string option"
  estimate :: "real option"

record loaded_row = row_common +
  country :: "string option"
  year :: int
  sex :: "string option"

record tobacco_row = loaded_row +
  prevalence :: "real option"

record mortality_row = loaded_row +
  mortality :: "real option"

subsection \<open>Loaders\<close>

text \<open>\<open>Series.isin(values)\<close>: a missing cell is in no list of strings.\<close>

definition isin :: "string option \<Rightarrow> string list \<Rightarrow> bool" where
  "isin c vs = (case c of None \<Rightarrow> False | Some s \<Rightarrow> s \<in> set vs)"

text \<open>
  \<open>astype(int)\<close> on one cell casts to a signed 64-bit integer: NaN raises, a float is
  truncated towards zero, and a whole number outside the range of 64 bits wraps around
  modulo \<open>2^64\<close>.
\<close>

definition int64 :: "int \<Rightarrow> int" where
  "int64 i = (i + 2 ^ 63) mod 2 ^ 64 - 2 ^ 63"

definition astype_int :: "real option \<Rightarrow> py_error + int" where
  "astype_int c =
     (case c of
        None \<Rightarrow> Inl IntCastingNaNError
      | Some x \<Rightarrow> Inr (int64 (if 0 \<le> x then \<lfloor>x\<rfloor> else \<lceil>x\<rceil>)))"

text \<open>A column operation that raises on one cell raises for the whole frame.\<close>

fun each_row :: "('a \<Rightarrow> py_error + 'b) \<Rightarrow> 'a list \<Rightarrow> py_error + 'b list" where
  "each_row f [] = Inr []"
| "each_row f (x # xs) =
     (case f x of
        Inl e \<Rightarrow> Inl e
      | Inr y \<Rightarrow> (case each_row f xs of Inl e \<Rightarrow> Inl e | Inr ys \<Rightarrow> Inr (y # ys)))"

definition keep_row :: "string list \<Rightarrow> raw_row \<Rightarrow> bool" where
  "keep_row indicators r =
     (isin (indicator_name r) indicators \<and> isin (subgroup r) [''Male'', ''Female''])"

definition rename_tobacco :: "raw_row \<Rightarrow> py_error + tobacco_row" where
  "rename_tobacco r =
     (case astype_int (date r) of
        Inl e \<Rightarrow> Inl e
      | Inr y \<Rightarrow>
          Inr \<lparr>indicator_name = indicator_name r, iso3 = iso3 r,
               wbincome2024 = wbincome2024 r, wbincome2023 = wbincome2023 r,
               country = setting r, year = y, sex = subgroup r,
               prevalence = estimate r\<rparr>)"

definition rename_mortality :: "raw_row \<Rightarrow> py_error + mortality_row" where
  "rename_mortality r =
     (case astype_int (date r) of
        Inl e \<Rightarrow> Inl e
      | Inr y \<Rightarrow>
          Inr \<lparr>indicator_name = indicator_name r, iso3 = iso3 r,
               wbincome2024 = wbincome2024 r, wbincome2023 = wbincome2023 r,
               country = setting r, year = y, sex = subgroup r,
               mortality = estimate r\<rparr>)"

text \<open>
  \<open>load_tobacco(path, indicators)\<close> and \<open>load_mortality(path)\<close>; the first argument
  is the content of \<open>Sheet1\<close> of the file at \<open>path\<close>.
\<close>

definition load_tobacco :: "raw_row list \<Rightarrow> string list \<Rightarrow> py_error + tobacco_row list" where
  "load_tobacco sheet indicators = each_row rename_tobacco (filter (keep_row indicators) sheet)"

definition mortality_indicators :: "string list" where
  "mortality_indicators =
     [''2.A.05 Tracheal, bronchus, and lung cancer incidence (age standardized) (per 100 000 population)'']"

definition load_mortality :: "raw_row list \<Rightarrow> py_error + mortality_row list" where
  "load_mortality sheet =
     each_row rename_mortality (filter (keep_row mortality_indicators) sheet)"

subsection \<open>Grouped means\<close>

text \<open>
  \<open>Series.mean()\<close> skips NaN: pandas sums the cells with NaN filled by zero and
  divides by the number of cells that are not NaN; with no such cell the mean is NaN.
\<close>

definition cell_sum :: "real option \<Rightarrow> real" where
  "cell_sum c = (case c of None \<Rightarrow> 0 | Some x \<Rightarrow> x)"

definition cell_nobs :: "real option \<Rightarrow> nat" where
  "cell_nobs c = (case c of None \<Rightarrow> 0 | Some x \<Rightarrow> 1)"

definition nan_div :: "real \<Rightarrow> nat \<Rightarrow> real option" where
  "nan_div sumx nobs = (if nobs = 0 then None else Some (sumx / real nobs))"

definition mean :: "real option list \<Rightarrow> real option" where
  "mean cells = nan_div (sum_list (map cell_sum cells)) (sum_list (map cell_nobs cells))"

text \<open>
  \<open>df.groupby(keys, as_index=False).col.mean()\<close>. A row whose key has a missing
  component belongs to no group (\<open>dropna=True\<close>): the key function returns \<open>None\<close>
  for it. Every other row adds its cell to the running sum and count of its group; a
  group is created by its first row. The groups come out sorted by key
  (\<open>sort=True\<close>), each with the mean of its cells that are not NaN.
\<close>

fun group_add :: "'k \<Rightarrow> real option \<Rightarrow> ('k \<times> real \<times> nat) list \<Rightarrow> ('k \<times> real \<times> nat) list" where
  "group_add k c [] = [(k, cell_sum c, cell_nobs c)]"
| "group_add k c ((k', sumx, nobs) # gs) =
     (if k = k' then (k', sumx + cell_sum c, nobs + cell_nobs c) # gs
      else (k', sumx, nobs) # group_add k c gs)"

definition group_row ::
  "('r \<Rightarrow> 'k option) \<Rightarrow> ('r \<Rightarrow> real option) \<Rightarrow> 'r \<Rightarrow> ('k \<times> real \<times> nat) list \<Rightarrow> ('k \<times> real \<times> nat) list" where
  "group_row key col r gs = (case key r of None \<Rightarrow> gs | Some k \<Rightarrow> group_add k (col r) gs)"

definition group_mean :: "'k \<times> real \<times> nat \<Rightarrow> 'k \<times> real option" where
  "group_mean g = (case g of (k, sumx, nobs) \<Rightarrow> (k, nan_div sumx nobs))"

definition groupby_mean ::
  "('r \<Rightarrow> ('k::linorder) option) \<Rightarrow> ('r \<Rightarrow> real option) \<Rightarrow> 'r list \<Rightarrow> ('k \<times> real option) list" where
  "groupby_mean key col rows = map group_mean (sort_key fst (fold (group_row key col) rows []))"

text \<open>The cells of a column that are not NaN, and the group keys the script uses.\<close>

fun dropna :: "real option list \<Rightarrow> real list" where
  "dropna [] = []"
| "dropna (None # cs) = dropna cs"
| "dropna (Some x # cs) = x # dropna cs"

definition by_country :: "'a loaded_row_scheme \<Rightarrow> string option" where
  "by_country r = country r"

definition by_country_iso3 :: "'a loaded_row_scheme \<Rightarrow> (string \<times> string) option" where
  "by_country_iso3 r =
     (case country r of
        None \<Rightarrow> None
      | Some c \<Rightarrow> (case iso3 r of None \<Rightarrow> None | Some i \<Rightarrow> Some (c, i)))"

definition by_year_sex :: "'a loaded_row_scheme \<Rightarrow> (int \<times> string) option" where
  "by_year_sex r = (case sex r of None \<Rightarrow> None | Some s \<Rightarrow> Some (year r, s))"

subsection \<open>Top-n selection\<close>

text \<open>
  \<open>DataFrame.nlargest(n, column)\<close> with \<open>keep='first'\<close>: the rows whose cell is not
  NaN in descending order of the cell, rows with equal cells in their original order
  (a stable sort of the negated cells), then the rows whose cell is NaN; the first
  \<open>n\<close> of these.
\<close>

definition neg_cell :: "real option \<Rightarrow> real" where
  "neg_cell c = (case c of None \<Rightarrow> 0 | Some x \<Rightarrow> - x)"

definition nlargest :: "int \<Rightarrow> ('a \<Rightarrow> real option) \<Rightarrow> 'a list \<Rightarrow> 'a list" where
  "nlargest n col rows =
     (if n \<le> 0 then []
      else
        let dropped = filter (\<lambda>r. col r \<noteq> None) rows;
            nan_index = filter (\<lambda>r. col r = None) rows
        in take (nat n) (sort_key (\<lambda>r. neg_cell (col r)) dropped @ nan_index))"

subsection \<open>Linear trend\<close>

text \<open>
  \<open>np.polyfit(x, y, 1)\<close> fits \<open>y = m*x + b\<close> with \<open>np.linalg.lstsq\<close>, a singular
  value decomposition in 64-bit floats with \<open>rcond = len(x) * eps\<close>, on the design
  matrix whose two columns (the \<open>x\<close> and the ones) are scaled to unit length:
  \<^item> an empty \<open>x\<close> raises TypeError;
  \<^item> when all \<open>x\<close> are zero the scaling divides the first column by zero; the matrix
    then holds NaN and the decomposition fails: LinAlgError;
  \<^item> a NaN in \<open>y\<close> raises nothing: both coefficients come out NaN;
  \<^item> when all \<open>x\<close> are equal the matrix has rank 1; \<open>polyfit\<close> only warns
    (RankWarning) and returns the solution of least norm of the scaled system, which is
    \<open>m = ybar / (2 * x0)\<close>, \<open>b = ybar / 2\<close>;
  \<^item> otherwise the coefficients are what the decomposition yields in floating point:
    the least-squares line up to rounding, or the line of least norm when the matrix is
    of rank 1 numerically. Floating point has no counterpart here, so this result is
    the parameter \<open>lstsq\<close> of the model, a function of the points.
\<close>

definition points :: "(int \<times> real option) list \<Rightarrow> (real \<times> real) list" where
  "points series = map (\<lambda>p. (real_of_int (fst p), cell_sum (snd p))) series"

definition min_norm_fit :: "(real \<times> real) list \<Rightarrow> real \<times> real" where
  "min_norm_fit pts =
     (let ybar = sum_list (map snd pts) / real (length pts);
          x0 = fst (hd pts)
      in (ybar / (2 * x0), ybar / 2))"

definition polyfit ::
  "((real \<times> real) list \<Rightarrow> real \<times> real) \<Rightarrow> (int \<times> real option) list \<Rightarrow>
     py_error + real option \<times> real option" where
  "polyfit lstsq xy =
     (if xy = [] then Inl TypeError
      else if list_all (\<lambda>p. fst p = 0) xy then Inl LinAlgError
      else if list_ex (\<lambda>p. snd p = None) xy then Inr (None, None)
      else
        let pts = points xy;
            mb = (if list_all (\<lambda>p. fst p = fst (hd pts)) pts then min_norm_fit pts
                  else lstsq pts)
        in Inr (Some (fst mb), Some (snd mb)))"

text \<open>The value \<open>m*yr + b\<close> of the line at a year; NaN coefficients give NaN.\<close>

definition line_at :: "real option \<times> real option \<Rightarrow> int \<Rightarrow> real option" where
  "line_at mb yr =
     (case fst mb of
        None \<Rightarrow> None
      | Some m \<Rightarrow> (case snd mb of None \<Rightarrow> None | Some b \<Rightarrow> Some (m * real_of_int yr + b)))"

text \<open>
  The body of the loop \<open>for sex in ["Male","Female"]\<close>: fit the series of one sex,
  then evaluate the line at every future year.
\<close>

definition forecast ::
  "((real \<times> real) list \<Rightarrow> real \<times> real) \<Rightarrow> (int \<times> real option) list \<Rightarrow> int list \<Rightarrow>
     py_error + (int \<times> real option) list" where
  "forecast lstsq series yrs =
     (case polyfit lstsq series of
        Inl e \<Rightarrow> Inl e
      | Inr mb \<Rightarrow> Inr (map (\<lambda>yr. (yr, line_at mb yr)) yrs))"

text \<open>\<open>prev_ts[prev_ts.sex == sex]\<close>: the years and means of one sex.\<close>

definition df_sex :: "string \<Rightarrow> ((int \<times> string) \<times> real option) list \<Rightarrow> (int \<times> real option) list" where
  "df_sex s ts = map (\<lambda>r. (fst (fst r), snd r)) (filter (\<lambda>r. snd (fst r) = s) ts)"

text \<open>
  The loop over the sexes appends the points (year, sex, value) of each sex to the list
  \<open>forecasts\<close>. Nothing catches an exception of \<open>polyfit\<close>: the first one ends the
  loop and the script.
\<close>

fun forecasts ::
  "((real \<times> real) list \<Rightarrow> real \<times> real) \<Rightarrow> string list \<Rightarrow>
     ((int \<times> string) \<times> real option) list \<Rightarrow> int list \<Rightarrow>
     py_error + (int \<times> string \<times> real option) list" where
  "forecasts lstsq [] ts yrs = Inr []"
| "forecasts lstsq (s # sexes) ts yrs =
     (case forecast lstsq (df_sex s ts) yrs of
        Inl e \<Rightarrow> Inl e
      | Inr pts \<Rightarrow>
          (case forecasts lstsq sexes ts yrs of
             Inl e \<Rightarrow> Inl e
           | Inr rest \<Rightarrow> Inr (map (\<lambda>p. (fst p, s, snd p)) pts @ rest)))"

definition years_future :: "int list" where
  "years_future = [2025, 2030]"

subsection \<open>The page\<close>

text \<open>
  The script runs top to bottom for the selected country and hands each table to a chart
  as soon as it is computed. The model returns the tables charted so far and the
  exception that ended the run, if any. It covers the page up to the two charts over
  time; the stacked chart of the adolescent and adult indicators that closes the script
  charts the loaded rows of the country as they are and is left out.
\<close>

datatype chart =
    Key_Metrics "real option" "real option" "real option" "real option"
  | Choropleth "((string \<times> string) \<times> real option) list"
  | Income_Pie "(string \<times> real option) list"
  | Top_Bar "(string \<times> real option) list"
  | Over_Time "((int \<times> string) \<times> real option) list" "(int \<times> string \<times> real option) list"

definition select_country :: "string \<Rightarrow> ('a loaded_row_scheme) list \<Rightarrow> ('a loaded_row_scheme) list" where
  "select_country c df = filter (\<lambda>r. country r = Some c) df"

definition sex_mean :: "string \<Rightarrow> ('r \<Rightarrow> string option) \<Rightarrow> ('r \<Rightarrow> real option) \<Rightarrow> 'r list \<Rightarrow> real option" where
  "sex_mean s sex_col col df = mean (map col (filter (\<lambda>r. sex_col r = Some s) df))"

definition male_prev :: "string \<Rightarrow> tobacco_row list \<Rightarrow> real option" where
  "male_prev c df_tob = sex_mean ''Male'' sex prevalence (select_country c df_tob)"

definition female_prev :: "string \<Rightarrow> tobacco_row list \<Rightarrow> real option" where
  "female_prev c df_tob = sex_mean ''Female'' sex prevalence (select_country c df_tob)"

definition male_mort :: "string \<Rightarrow> mortality_row list \<Rightarrow> real option" where
  "male_mort c df_mor = sex_mean ''Male'' sex mortality (select_country c df_mor)"

definition female_mort :: "string \<Rightarrow> mortality_row list \<Rightarrow> real option" where
  "female_mort c df_mor = sex_mean ''Female'' sex mortality (select_country c df_mor)"

definition map_df :: "mortality_row list \<Rightarrow> ((string \<times> string) \<times> real option) list" where
  "map_df df_mor = groupby_mean by_country_iso3 mortality df_mor"

definition grp_prev :: "tobacco_row list \<Rightarrow> (string \<times> real option) list" where
  "grp_prev df_tob = groupby_mean wbincome2024 prevalence df_tob"

definition grp_mor :: "mortality_row list \<Rightarrow> (string \<times> real option) list" where
  "grp_mor df_mor = groupby_mean wbincome2023 mortality df_mor"

definition top_prev :: "tobacco_row list \<Rightarrow> (string \<times> real option) list" where
  "top_prev df_tob = nlargest 5 snd (groupby_mean by_country prevalence df_tob)"

definition top_mor :: "mortality_row list \<Rightarrow> (string \<times> real option) list" where
  "top_mor df_mor = nlargest 5 snd (groupby_mean by_country mortality df_mor)"

text \<open>
  The yearly means per sex of the selected country, \<open>sort_values("year")\<close> applied
  to the grouped mean by year and sex (which is sorted by year and sex already).
\<close>

definition prev_ts :: "tobacco_row list \<Rightarrow> ((int \<times> string) \<times> real option) list" where
  "prev_ts tob = sort_key (\<lambda>r. fst (fst r)) (groupby_mean by_year_sex prevalence tob)"

definition mort_ts :: "mortality_row list \<Rightarrow> ((int \<times> string) \<times> real option) list" where
  "mort_ts mor = sort_key (\<lambda>r. fst (fst r)) (groupby_mean by_year_sex mortality mor)"

definition dashboard ::
  "((real \<times> real) list \<Rightarrow> real \<times> real) \<Rightarrow> string \<Rightarrow> tobacco_row list \<Rightarrow> mortality_row list \<Rightarrow>
     chart list \<times> py_error option" where
  "dashboard lstsq c df_tob df_mor =
     (let tob = select_country c df_tob;
          mor = select_country c df_mor;
          row1 = [Key_Metrics (male_prev c df_tob) (female_prev c df_tob)
                    (male_mort c df_mor) (female_mort c df_mor),
                  Choropleth (map_df df_mor),
                  Income_Pie (grp_prev df_tob),
                  Income_Pie (grp_mor df_mor),
                  Top_Bar (top_prev df_tob),
                  Top_Bar (top_mor df_mor)]
      in case forecasts lstsq [''Male'', ''Female''] (prev_ts tob) years_future of
           Inl e \<Rightarrow> (row1, Some e)
         | Inr df_fut \<Rightarrow>
             (case forecasts lstsq [''Male'', ''Female''] (mort_ts mor) years_future of
                Inl e \<Rightarrow> (row1 @ [Over_Time (prev_ts tob) df_fut], Some e)
              | Inr df_fut2 \<Rightarrow>
                  (row1 @ [Over_Time (prev_ts tob) df_fut, Over_Time (mort_ts mor) df_fut2],
                   None)))"

subsection \<open>Reference notions\<close>

text \<open>
  The arithmetic mean of a list of numbers, undefined for the empty list: what a mean
  of the values that are present is compared with.
\<close>

definition arithmetic_mean :: "real list \<Rightarrow> real option" where
  "arithmetic_mean vs = (if vs = [] then None else Some (sum_list vs / real (length vs)))"

text \<open>
  The order of a ranking by a column: a number is no less than every smaller or equal
  number and than NaN, which ranks below every number.
\<close>

definition no_less :: "real option \<Rightarrow> real option \<Rightarrow> bool" where
  "no_less a b =
     (case b of
        None \<Rightarrow> True
      | Some y \<Rightarrow> (case a of None \<Rightarrow> False | Some x \<Rightarrow> y \<le> x))"

text \<open>The whole frame in the order \<open>nlargest\<close> takes its rows from.\<close>

definition ranked :: "('a \<Rightarrow> real option) \<Rightarrow> 'a list \<Rightarrow> 'a list" where
  "ranked col rows =
     sort_key (\<lambda>r. neg_cell (col r)) (filter (\<lambda>r. col r \<noteq> None) rows) @
     filter (\<lambda>r. col r = None) rows"

text \<open>The charts over time among the charts of a page.\<close>

fun is_over_time :: "chart \<Rightarrow> bool" where
  "is_over_time (Over_Time ts fut) = True"
| "is_over_time c = False"

text \<open>The tables the page hands to the choropleth map.\<close>

fun choropleth_tables :: "chart list \<Rightarrow> ((string \<times> string) \<times> real option) list list" where
  "choropleth_tables [] = []"
| "choropleth_tables (Choropleth t # cs) = t # choropleth_tables cs"
| "choropleth_tables (c # cs) = choropleth_tables cs"

subsection \<open>Sample data\<close>

text \<open>
  A sheet of three rows: a male tobacco row, a row of the subgroup both sexes, and a
  female row of the mortality indicator whose date is a float and whose estimate is
  missing.
\<close>

definition sheet_example :: "raw_row list" where
  "sheet_example =
     [\<lparr>indicator_name = Some ''Estimate of current tobacco use prevalence (age-standardized) (%)'',
       iso3 = Some ''LBN'', wbincome2024 = Some ''Lower middle income'', wbincome2023 = None,
       setting = Some ''Lebanon'', date = Some 2018, subgroup = Some ''Male'',
       estimate = Some 20\<rparr>,
      \<lparr>indicator_name = Some ''Estimate of current tobacco use prevalence (age-standardized) (%)'',
       iso3 = Some ''LBN'', wbincome2024 = Some ''Lower middle income'', wbincome2023 = None,
       setting = Some ''Lebanon'', date = Some 2018, subgroup = Some ''Both sexes'',
       estimate = Some 21\<rparr>,
      \<lparr>indicator_name = Some ''2.A.05 Tracheal, bronchus, and lung cancer incidence (age standardized) (per 100 000 population)'',
       iso3 = Some ''LBN'', wbincome2024 = None, wbincome2023 = Some ''Lower middle income'',
       setting = Some ''Lebanon'', date = Some (4039 / 2), subgroup = Some ''Female'',
       estimate = None\<rparr>]"


text \<open>Loaded frames: mortality rows of three countries and tobacco rows of two.\<close>

definition mortality_sample :: "string \<Rightarrow> string option \<Rightarrow> int \<Rightarrow> string \<Rightarrow> real option \<Rightarrow> mortality_row" where
  "mortality_sample c i y s v =
     \<lparr>indicator_name = Some (hd mortality_indicators), iso3 = i, wbincome2024 = None,
      wbincome2023 = Some ''High income'', country = Some c, year = y, sex = Some s,
      mortality = v\<rparr>"

definition df_mor_example :: "mortality_row list" where
  "df_mor_example =
     [mortality_sample ''B'' (Some ''BBB'') 2020 ''Male'' (Some 50),
      mortality_sample ''A'' (Some ''AAA'') 2020 ''Male'' (Some 10),
      mortality_sample ''A'' (Some ''AAA'') 2020 ''Female'' (Some 30),
      mortality_sample ''A'' (Some ''AAA'') 2021 ''Female'' None,
      mortality_sample ''C'' None 2020 ''Male'' (Some 7)]"

definition tobacco_sample :: "string \<Rightarrow> int \<Rightarrow> string \<Rightarrow> real option \<Rightarrow> tobacco_row" where
  "tobacco_sample c y s v =
     \<lparr>indicator_name = Some ''Estimate of current tobacco use prevalence (age-standardized) (%)'',
      iso3 = None, wbincome2024 = Some ''High income'', wbincome2023 = None,
      country = Some c, year = y, sex = Some s, prevalence = v\<rparr>"

definition df_tob_example :: "tobacco_row list" where
  "df_tob_example =
     [tobacco_sample ''Lebanon'' 2018 ''Male'' (Some 20),
      tobacco_sample ''Lebanon'' 2019 ''Male'' (Some 22),
      tobacco_sample ''Lebanon'' 2020 ''Male'' (Some 24),
      tobacco_sample ''Lebanon'' 2020 ''Male'' None,
      tobacco_sample ''Jordan'' 2020 ''Female'' (Some 9),
      tobacco_sample ''Jordan'' 2020 ''Male'' (Some 11)]"

section \<open>The loaders\<close>

lemma each_row_Inr_mem:
  "each_row f xs = Inr ys \<Longrightarrow> y \<in> set ys \<Longrightarrow> \<exists>x\<in>set xs. f x = Inr y"
  by (induction xs arbitrary: ys) (auto split: sum.splits)

lemma each_row_Inr_length:
  "each_row f xs = Inr ys \<Longrightarrow> length ys = length xs"
  by (induction xs arbitrary: ys) (auto split: sum.splits)

lemma astype_int_Inr:
  "astype_int c = Inr y \<Longrightarrow> \<exists>d. c = Some d \<and> y = int64 (if 0 \<le> d then \<lfloor>d\<rfloor> else \<lceil>d\<rceil>)"
  by (auto simp: astype_int_def split: option.splits)

text \<open>A date of \<open>10^19\<close> is beyond 64 bits and wraps to a negative year.\<close>

lemma astype_int_wraps:
  "astype_int (Some 10000000000000000000) = Inr (- 8446744073709551616)"
  by (simp add: astype_int_def int64_def)

lemma int64_in_range: "- (2 ^ 63) \<le> i \<Longrightarrow> i < 2 ^ 63 \<Longrightarrow> int64 i = i"
  by (simp add: int64_def)

lemma keep_row_iff:
  "keep_row inds raw \<longleftrightarrow>
     indicator_name raw \<in> Some ` set inds \<and> subgroup raw \<in> {Some ''Male'', Some ''Female''}"
  by (auto simp: keep_row_def isin_def split: option.splits)

lemma rename_tobacco_Inr:
  "rename_tobacco raw = Inr r \<Longrightarrow>
     \<exists>d. date raw = Some d \<and> indicator_name r = indicator_name raw \<and>
       country r = setting raw \<and> year r = int64 (if 0 \<le> d then \<lfloor>d\<rfloor> else \<lceil>d\<rceil>) \<and>
       sex r = subgroup raw \<and> prevalence r = estimate raw"
  by (auto simp: rename_tobacco_def split: sum.splits dest!: astype_int_Inr)

lemma rename_mortality_Inr:
  "rename_mortality raw = Inr r \<Longrightarrow>
     \<exists>d. date raw = Some d \<and> indicator_name r = indicator_name raw \<and>
       country r = setting raw \<and> year r = int64 (if 0 \<le> d then \<lfloor>d\<rfloor> else \<lceil>d\<rceil>) \<and>
       sex r = subgroup raw \<and> mortality r = estimate raw"
  by (auto simp: rename_mortality_def split: sum.splits dest!: astype_int_Inr)

lemma load_tobacco_row:
  assumes "load_tobacco sheet indicators = Inr df_tob" and "r \<in> set df_tob"
  shows "\<exists>raw\<in>set sheet. \<exists>d.
           indicator_name raw \<in> Some ` set indicators \<and>
           subgroup raw \<in> {Some ''Male'', Some ''Female''} \<and>
           date raw = Some d \<and> indicator_name r = indicator_name raw \<and>
           country r = setting raw \<and> year r = int64 (if 0 \<le> d then \<lfloor>d\<rfloor> else \<lceil>d\<rceil>) \<and>
           sex r = subgroup raw \<and> prevalence r = estimate raw"
proof -
  from assms obtain raw where raw: "raw \<in> set sheet" "keep_row indicators raw"
      "rename_tobacco raw = Inr r"
    unfolding load_tobacco_def by (auto dest!: each_row_Inr_mem)
  from rename_tobacco_Inr[OF raw(3)] raw(1) raw(2)[unfolded keep_row_iff]
  show ?thesis by blast
qed

lemma load_mortality_row:
  assumes "load_mortality sheet = Inr df_mor" and "r \<in> set df_mor"
  shows "\<exists>raw\<in>set sheet. \<exists>d.
           indicator_name raw \<in> Some ` set mortality_indicators \<and>
           subgroup raw \<in> {Some ''Male'', Some ''Female''} \<and>
           date raw = Some d \<and> indicator_name r = indicator_name raw \<and>
           country r = setting raw \<and> year r = int64 (if 0 \<le> d then \<lfloor>d\<rfloor> else \<lceil>d\<rceil>) \<and>
           sex r = subgroup raw \<and> mortality r = estimate raw"
proof -
  from assms obtain raw where raw: "raw \<in> set sheet" "keep_row mortality_indicators raw"
      "rename_mortality raw = Inr r"
    unfolding load_mortality_def by (auto dest!: each_row_Inr_mem)
  from rename_mortality_Inr[OF raw(3)] raw(1) raw(2)[unfolded keep_row_iff]
  show ?thesis by blast
qed

lemma load_tobacco_example:
  "load_tobacco sheet_example [''Estimate of current tobacco use prevalence (age-standardized) (%)'']
     = Inr [\<lparr>indicator_name = Some ''Estimate of current tobacco use prevalence (age-standardized) (%)'',
             iso3 = Some ''LBN'', wbincome2024 = Some ''Lower middle income'', wbincome2023 = None,
             country = Some ''Lebanon'', year = 2018, sex = Some ''Male'', prevalence = Some 20\<rparr>]"
  by (simp add: sheet_example_def load_tobacco_def keep_row_def isin_def rename_tobacco_def
      astype_int_def int64_def)

lemma load_mortality_example:
  "load_mortality sheet_example
     = Inr [\<lparr>indicator_name = Some ''2.A.05 Tracheal, bronchus, and lung cancer incidence (age standardized) (per 100 000 population)'',
             iso3 = Some ''LBN'', wbincome2024 = None, wbincome2023 = Some ''Lower middle income'',
             country = Some ''Lebanon'', year = 2019, sex = Some ''Female'', mortality = None\<rparr>]"
  by (simp add: sheet_example_def load_mortality_def mortality_indicators_def keep_row_def isin_def
      rename_mortality_def astype_int_def int64_def)


text \<open>
  Claim C3. Every row a loader returns has sex Male or Female and an indicator name of
  the indicator list (the supplied one for \<open>load_tobacco\<close>, the built-in one for
  \<open>load_mortality\<close>), and it comes from a sheet row of that subgroup by renaming
  setting to country, date to year, subgroup to sex and estimate to the value column
  (named \<open>prevalence\<close>, respectively \<open>mortality\<close>), the year being the date cast to
  a signed 64-bit integer: truncated towards zero and wrapped modulo \<open>2^64\<close>. So no
  row of another subgroup is ever returned.
\<close>

theorem loaders_filter_and_rename:
  "(load_tobacco sheet indicators = Inr df_tob \<longrightarrow>
      (\<forall>r\<in>set df_tob.
         sex r \<in> {Some ''Male'', Some ''Female''} \<and>
         indicator_name r \<in> Some ` set indicators \<and>
         (\<exists>raw\<in>set sheet. \<exists>d. date raw = Some d \<and>
            subgroup raw \<in> {Some ''Male'', Some ''Female''} \<and>
            country r = setting raw \<and> year r = int64 (if 0 \<le> d then \<lfloor>d\<rfloor> else \<lceil>d\<rceil>) \<and>
            sex r = subgroup raw \<and> prevalence r = estimate raw))) \<and>
   (load_mortality sheet' = Inr df_mor \<longrightarrow>
      (\<forall>r\<in>set df_mor.
         sex r \<in> {Some ''Male'', Some ''Female''} \<and>
         indicator_name r \<in> Some ` set mortality_indicators \<and>
         (\<exists>raw\<in>set sheet'. \<exists>d. date raw = Some d \<and>
            subgroup raw \<in> {Some ''Male'', Some ''Female''} \<and>
            country r = setting raw \<and> year r = int64 (if 0 \<le> d then \<lfloor>d\<rfloor> else \<lceil>d\<rceil>) \<and>
            sex r = subgroup raw \<and> mortality r = estimate raw)))"
proof -
  have tob: "sex r \<in> {Some ''Male'', Some ''Female''} \<and>
         indicator_name r \<in> Some ` set indicators \<and>
         (\<exists>raw\<in>set sheet. \<exists>d. date raw = Some d \<and>
            subgroup raw \<in> {Some ''Male'', Some ''Female''} \<and>
            country r = setting raw \<and> year r = int64 (if 0 \<le> d then \<lfloor>d\<rfloor> else \<lceil>d\<rceil>) \<and>
            sex r = subgroup raw \<and> prevalence r = estimate raw)"
    if "load_tobacco sheet indicators = Inr df_tob" "r \<in> set df_tob" for r
    using load_tobacco_row[OF that] by (elim bexE exE conjE) (simp, blast)
  have mor: "sex r \<in> {Some ''Male'', Some ''Female''} \<and>
         indicator_name r \<in> Some ` set mortality_indicators \<and>
         (\<exists>raw\<in>set sheet'. \<exists>d. date raw = Some d \<and>
            subgroup raw \<in> {Some ''Male'', Some ''Female''} \<and>
            country r = setting raw \<and> year r = int64 (if 0 \<le> d then \<lfloor>d\<rfloor> else \<lceil>d\<rceil>) \<and>
            sex r = subgroup raw \<and> mortality r = estimate raw)"
    if "load_mortality sheet' = Inr df_mor" "r \<in> set df_mor" for r
    using load_mortality_row[OF that] by (elim bexE exE conjE) (simp, blast)
  show ?thesis
    by (rule conjI; rule impI; rule ballI; (rule tob | rule mor); assumption)
qed

theorem loaders_filter_and_rename_witness:
  "load_tobacco sheet_example
       [''Estimate of current tobacco use prevalence (age-standardized) (%)'']
     = Inr [\<lparr>indicator_name = Some ''Estimate of current tobacco use prevalence (age-standardized) (%)'',
             iso3 = Some ''LBN'', wbincome2024 = Some ''Lower middle income'', wbincome2023 = None,
             country = Some ''Lebanon'', year = 2018, sex = Some ''Male'', prevalence = Some 20\<rparr>] \<and>
   load_mortality sheet_example
     = Inr [\<lparr>indicator_name = Some ''2.A.05 Tracheal, bronchus, and lung cancer incidence (age standardized) (per 100 000 population)'',
             iso3 = Some ''LBN'', wbincome2024 = None, wbincome2023 = Some ''Lower middle income'',
             country = Some ''Lebanon'', year = 2019, sex = Some ''Female'', mortality = None\<rparr>] \<and>
   list_all (\<lambda>r. sex r \<in> {Some ''Male'', Some ''Female''})
     [\<lparr>indicator_name = Some ''Estimate of current tobacco use prevalence (age-standardized) (%)'',
       iso3 = Some ''LBN'', wbincome2024 = Some ''Lower middle income'', wbincome2023 = None,
       country = Some ''Lebanon'', year = 2018, sex = Some ''Male'', prevalence = Some 20\<rparr>] \<and>
   list_all (\<lambda>r. sex r \<in> {Some ''Male'', Some ''Female''})
     [\<lparr>indicator_name = Some ''2.A.05 Tracheal, bronchus, and lung cancer incidence (age standardized) (per 100 000 population)'',
       iso3 = Some ''LBN'', wbincome2024 = None, wbincome2023 = Some ''Lower middle income'',
       country = Some ''Lebanon'', year = 2019, sex = Some ''Female'', mortality = None\<rparr>]"
  using loaders_filter_and_rename [THEN conjunct1, THEN mp, OF load_tobacco_example]
    loaders_filter_and_rename [THEN conjunct2, THEN mp, OF load_mortality_example]
    load_tobacco_example load_mortality_example
  by simp


text \<open>
  Claim C10. \<open>load_mortality\<close> takes the sheet and nothing else. Every row it returns
  has the one built-in indicator name, and it returns as many rows as the sheet has
  rows of that indicator with subgroup Male or Female.
\<close>

theorem load_mortality_fixed_indicator:
  assumes "load_mortality sheet = Inr df_mor"
  shows "(\<forall>r\<in>set df_mor.
            indicator_name r = Some ''2.A.05 Tracheal, bronchus, and lung cancer incidence (age standardized) (per 100 000 population)'') \<and>
         length df_mor =
           length (filter (\<lambda>raw.
              indicator_name raw = Some ''2.A.05 Tracheal, bronchus, and lung cancer incidence (age standardized) (per 100 000 population)'' \<and>
              subgroup raw \<in> {Some ''Male'', Some ''Female''}) sheet)"
proof
  show "\<forall>r\<in>set df_mor.
            indicator_name r = Some ''2.A.05 Tracheal, bronchus, and lung cancer incidence (age standardized) (per 100 000 population)''"
  proof
    fix r assume "r \<in> set df_mor"
    from load_mortality_row[OF assms this] show "indicator_name r = Some ''2.A.05 Tracheal, bronchus, and lung cancer incidence (age standardized) (per 100 000 population)''"
      unfolding mortality_indicators_def by auto
  qed
next
  have "keep_row mortality_indicators = (\<lambda>raw.
              indicator_name raw = Some ''2.A.05 Tracheal, bronchus, and lung cancer incidence (age standardized) (per 100 000 population)'' \<and>
              subgroup raw \<in> {Some ''Male'', Some ''Female''})"
    unfolding keep_row_iff mortality_indicators_def by auto
  with each_row_Inr_length[OF assms[unfolded load_mortality_def]]
  show "length df_mor =
           length (filter (\<lambda>raw.
              indicator_name raw = Some ''2.A.05 Tracheal, bronchus, and lung cancer incidence (age standardized) (per 100 000 population)'' \<and>
              subgroup raw \<in> {Some ''Male'', Some ''Female''}) sheet)"
    by simp
qed

theorem load_mortality_fixed_indicator_witness:
  "load_mortality sheet_example
     = Inr [\<lparr>indicator_name = Some ''2.A.05 Tracheal, bronchus, and lung cancer incidence (age standardized) (per 100 000 population)'',
             iso3 = Some ''LBN'', wbincome2024 = None, wbincome2023 = Some ''Lower middle income'',
             country = Some ''Lebanon'', year = 2019, sex = Some ''Female'', mortality = None\<rparr>] \<and>
   length (filter (\<lambda>raw.
       indicator_name raw = Some ''2.A.05 Tracheal, bronchus, and lung cancer incidence (age standardized) (per 100 000 population)'' \<and>
       subgroup raw \<in> {Some ''Male'', Some ''Female''}) sheet_example) = 1"
  using load_mortality_fixed_indicator [OF load_mortality_example] load_mortality_example
  by simp


section \<open>Grouped means\<close>

lemma sum_cell_sum: "sum_list (map cell_sum cs) = sum_list (dropna cs)"
  by (induction cs rule: dropna.induct) (simp_all add: cell_sum_def)

lemma sum_cell_nobs: "sum_list (map cell_nobs cs) = length (dropna cs)"
  by (induction cs rule: dropna.induct) (simp_all add: cell_nobs_def)

lemma dropna_Nil_iff: "dropna cs = [] \<longleftrightarrow> (\<forall>c\<in>set cs. c = None)"
  by (induction cs rule: dropna.induct) simp_all

lemma mean_arithmetic: "mean cs = arithmetic_mean (dropna cs)"
  by (simp add: mean_def nan_div_def arithmetic_mean_def sum_cell_sum sum_cell_nobs)

lemma nan_div_arithmetic:
  "nan_div (sum_list (map cell_sum cs)) (sum_list (map cell_nobs cs)) = arithmetic_mean (dropna cs)"
  by (simp add: nan_div_def arithmetic_mean_def sum_cell_sum sum_cell_nobs)

lemma nan_div_arithmetic_col:
  "nan_div (sum_list (map (cell_sum \<circ> col) rs)) (sum_list (map (cell_nobs \<circ> col) rs)) =
     arithmetic_mean (dropna (map col rs))"
  using nan_div_arithmetic[of "map col rs"] by simp

lemma map_fst_group_add:
  "map fst (group_add k c gs) = (if k \<in> fst ` set gs then map fst gs else map fst gs @ [k])"
  by (induction gs) (force simp: image_iff)+

lemma keys_group_add: "fst ` set (group_add k c gs) = insert k (fst ` set gs)"
  using map_fst_group_add[of k c gs, THEN arg_cong, of set] by (auto simp: image_iff)

lemma distinct_group_add:
  "distinct (map fst gs) \<Longrightarrow> distinct (map fst (group_add k c gs))"
  by (simp add: map_fst_group_add)

lemma map_of_group_add:
  "map_of (group_add k c gs) k' =
     (if k' = k
      then Some (case map_of gs k of
                   None \<Rightarrow> (cell_sum c, cell_nobs c)
                 | Some (s, n) \<Rightarrow> (s + cell_sum c, n + cell_nobs c))
      else map_of gs k')"
  by (induction gs) auto

lemma fold_snoc: "fold f (xs @ [x]) a = f x (fold f xs a)"
  by simp

lemma keys_group_rows:
  "fst ` set (fold (group_row key col) rows []) = {k. Some k \<in> key ` set rows}"
proof (induction rows rule: rev_induct)
  case Nil
  then show ?case by simp
next
  case (snoc r rows)
  show ?case
  proof (cases "key r")
    case None
    with snoc show ?thesis by (auto simp: group_row_def image_iff)
  next
    case (Some k)
    with snoc show ?thesis
      by (auto simp: group_row_def keys_group_add image_iff)
  qed
qed

lemma distinct_group_rows:
  "distinct (map fst (fold (group_row key col) rows []))"
proof (induction rows rule: rev_induct)
  case Nil
  then show ?case by simp
next
  case (snoc r rows)
  then show ?case
    by (cases "key r") (simp_all add: group_row_def distinct_group_add)
qed

lemma map_of_group_rows:
  "map_of (fold (group_row key col) rows []) k =
     (if Some k \<in> key ` set rows
      then Some (sum_list (map cell_sum (map col (filter (\<lambda>r. key r = Some k) rows))),
                 sum_list (map cell_nobs (map col (filter (\<lambda>r. key r = Some k) rows))))
      else None)"
proof (induction rows rule: rev_induct)
  case Nil
  then show ?case by simp
next
  case (snoc r rows)
  show ?case
  proof (cases "key r")
    case None
    with snoc show ?thesis by (auto simp: group_row_def image_iff)
  next
    case (Some k')
    have nomem: "filter (\<lambda>r. key r = Some k) rows = []" if "Some k \<notin> key ` set rows" for k
      using that by (auto simp: filter_empty_conv image_iff)
    show ?thesis
    proof (cases "k = k'")
      case True
      with Some snoc show ?thesis
        by (auto simp: group_row_def map_of_group_add nomem split: if_splits)
    next
      case False
      with Some snoc show ?thesis
        by (auto simp: group_row_def map_of_group_add image_iff)
    qed
  qed
qed

lemma groupby_mean_keys:
  "map fst (groupby_mean key col rows) = sorted_list_of_set {k. Some k \<in> key ` set rows}"
proof -
  let ?G = "fold (group_row key col) rows []"
  have eq: "map fst (groupby_mean key col rows) = map fst (sort_key fst ?G)"
    by (simp add: groupby_mean_def group_mean_def case_prod_beta comp_def)
  have "sorted (map fst (sort_key fst ?G))" by (rule sorted_sort_key)
  moreover have "distinct (map fst (sort_key fst ?G))"
    using distinct_group_rows[of key col rows]
    by (metis distinct_map distinct_sort set_sort inj_on_cong)
  moreover have "set (map fst (sort_key fst ?G)) = {k. Some k \<in> key ` set rows}"
    using keys_group_rows[of key col rows] by simp
  ultimately show ?thesis
    unfolding eq by (metis sorted_list_of_set.idem_if_sorted_distinct)
qed

lemma groupby_mean_mem:
  "(k, m) \<in> set (groupby_mean key col rows) \<longleftrightarrow>
     Some k \<in> key ` set rows \<and>
     m = arithmetic_mean (dropna (map col (filter (\<lambda>r. key r = Some k) rows)))"
proof -
  let ?G = "fold (group_row key col) rows []"
  have "(k, m) \<in> set (groupby_mean key col rows) \<longleftrightarrow> (\<exists>s n. (k, s, n) \<in> set ?G \<and> m = nan_div s n)"
    by (fastforce simp: groupby_mean_def group_mean_def image_iff split: prod.splits)
  also have "\<dots> \<longleftrightarrow> (\<exists>s n. map_of ?G k = Some (s, n) \<and> m = nan_div s n)"
    using distinct_group_rows[of key col rows] by auto
  also have "\<dots> \<longleftrightarrow> Some k \<in> key ` set rows \<and>
     m = arithmetic_mean (dropna (map col (filter (\<lambda>r. key r = Some k) rows)))"
    by (auto simp: map_of_group_rows nan_div_arithmetic_col)
  finally show ?thesis .
qed

lemma map_df_example:
  "map_df df_mor_example = [((''A'', ''AAA''), Some 20), ((''B'', ''BBB''), Some 50)]"
  by (simp add: map_df_def df_mor_example_def mortality_sample_def groupby_mean_def group_row_def
      group_mean_def nan_div_def cell_sum_def cell_nobs_def by_country_iso3_def)

lemma sex_mean_arithmetic:
  "sex_mean s sex col (select_country c df) =
     arithmetic_mean (dropna (map col (filter (\<lambda>r. country r = Some c \<and> sex r = Some s) df)))"
  by (simp add: sex_mean_def select_country_def mean_arithmetic conj_commute)

lemma arithmetic_mean_Nil: "arithmetic_mean [] = None"
  by (simp add: arithmetic_mean_def)

text \<open>
  Claim C1, as stated, fails: a row whose key has a missing component is dropped by
  \<open>groupby\<close>, and its group with it. The sample mortality frame has three distinct
  pairs of country and iso3, the one of country C with no iso3; the map table has two
  rows, and country C, with the value 7, is in none.
\<close>

theorem missing_key_counterexample:
  "card ((\<lambda>r. (country r, iso3 r)) ` set df_mor_example) = 3 \<and>
   map_df df_mor_example = [((''A'', ''AAA''), Some 20), ((''B'', ''BBB''), Some 50)] \<and>
   length (map_df df_mor_example) = 2"
proof -
  have "(\<lambda>r. (country r, iso3 r)) ` set df_mor_example
      = {(Some ''B'', Some ''BBB''), (Some ''A'', Some ''AAA''), (Some ''C'', None)}"
    by (simp add: df_mor_example_def mortality_sample_def)
  then have "card ((\<lambda>r. (country r, iso3 r)) ` set df_mor_example) = 3" by simp
  then show ?thesis using map_df_example by simp
qed

text \<open>
  Claim C1, amended. The grouped mean has one row per distinct key none of whose
  components is missing: the keys of the output are exactly these, none twice, and a
  row whose key has a missing component forms no group. The mean of each row of the
  output is the arithmetic mean of exactly the values present in the rows with that key:
  a missing value counts neither in the sum nor in the number of values.
\<close>

theorem groupby_mean_arithmetic_mean:
  "length (groupby_mean key col rows) = card {k. Some k \<in> key ` set rows} \<and>
   set (map fst (groupby_mean key col rows)) = {k. Some k \<in> key ` set rows} \<and>
   distinct (map fst (groupby_mean key col rows)) \<and>
   (\<forall>g\<in>set (groupby_mean key col rows).
      snd g = arithmetic_mean (dropna (map col (filter (\<lambda>r. key r = Some (fst g)) rows)))) \<and>
   (by_country_iso3 r = None \<longleftrightarrow> country r = None \<or> iso3 r = None)"
proof (intro conjI ballI)
  have fin: "finite {k. Some k \<in> key ` set rows}"
  proof -
    have "{k. Some k \<in> key ` set rows} = Option.these (key ` set rows)"
      by (auto simp: in_these_eq)
    then show ?thesis by (simp add: Option.these_def)
  qed
  have "length (groupby_mean key col rows) = length (map fst (groupby_mean key col rows))"
    by simp
  also have "\<dots> = card {k. Some k \<in> key ` set rows}"
    unfolding groupby_mean_keys by simp
  finally show "length (groupby_mean key col rows) = card {k. Some k \<in> key ` set rows}" .
  show "set (map fst (groupby_mean key col rows)) = {k. Some k \<in> key ` set rows}"
    unfolding groupby_mean_keys using fin by simp
  show "distinct (map fst (groupby_mean key col rows))"
    unfolding groupby_mean_keys by simp
  show "by_country_iso3 r = None \<longleftrightarrow> country r = None \<or> iso3 r = None"
    by (simp add: by_country_iso3_def split: option.splits)
next
  fix g assume "g \<in> set (groupby_mean key col rows)"
  then have "(fst g, snd g) \<in> set (groupby_mean key col rows)" by simp
  then show "snd g = arithmetic_mean (dropna (map col (filter (\<lambda>r. key r = Some (fst g)) rows)))"
    unfolding groupby_mean_mem by simp
qed

theorem groupby_mean_arithmetic_mean_witness:
  "map_df df_mor_example = [((''A'', ''AAA''), Some 20), ((''B'', ''BBB''), Some 50)] \<and>
   card {k. Some k \<in> by_country_iso3 ` set df_mor_example} = 2 \<and>
   arithmetic_mean (dropna (map mortality
     (filter (\<lambda>r. by_country_iso3 r = Some (''A'', ''AAA'')) df_mor_example))) = Some 20"
proof -
  note inst = groupby_mean_arithmetic_mean
      [where key = by_country_iso3 and col = mortality and rows = df_mor_example
         and r = "mortality_sample ''C'' None 2020 ''Male'' (Some 7)",
       folded map_df_def, unfolded map_df_example]
  from inst have "card {k. Some k \<in> by_country_iso3 ` set df_mor_example} = 2" by simp
  moreover from inst have
    "arithmetic_mean (dropna (map mortality
       (filter (\<lambda>r. by_country_iso3 r = Some (''A'', ''AAA'')) df_mor_example))) = Some 20"
    by simp
  ultimately show ?thesis using map_df_example by simp
qed

text \<open>
  Claim C5, as stated, fails: a group all of whose rows have a missing value is in the
  output, with a NaN mean. Here the one mortality row loaded from the sample sheet has
  no estimate, and both the map table and the income table contain its group.
\<close>

theorem nan_group_counterexample:
  "load_mortality sheet_example
     = Inr [\<lparr>indicator_name = Some ''2.A.05 Tracheal, bronchus, and lung cancer incidence (age standardized) (per 100 000 population)'',
             iso3 = Some ''LBN'', wbincome2024 = None, wbincome2023 = Some ''Lower middle income'',
             country = Some ''Lebanon'', year = 2019, sex = Some ''Female'', mortality = None\<rparr>] \<and>
   map_df [\<lparr>indicator_name = Some ''2.A.05 Tracheal, bronchus, and lung cancer incidence (age standardized) (per 100 000 population)'',
             iso3 = Some ''LBN'', wbincome2024 = None, wbincome2023 = Some ''Lower middle income'',
             country = Some ''Lebanon'', year = 2019, sex = Some ''Female'', mortality = None\<rparr>]
     = [((''Lebanon'', ''LBN''), None)] \<and>
   grp_mor [\<lparr>indicator_name = Some ''2.A.05 Tracheal, bronchus, and lung cancer incidence (age standardized) (per 100 000 population)'',
             iso3 = Some ''LBN'', wbincome2024 = None, wbincome2023 = Some ''Lower middle income'',
             country = Some ''Lebanon'', year = 2019, sex = Some ''Female'', mortality = None\<rparr>]
     = [(''Lower middle income'', None)]"
  using load_mortality_example
  by (simp add: map_df_def grp_mor_def groupby_mean_def group_row_def group_mean_def nan_div_def
      cell_sum_def cell_nobs_def by_country_iso3_def)

text \<open>
  Claim C5, amended. Every group of the output has at least one row of the input, and
  its mean is NaN exactly when the value of every row of the group is missing.
  Conversely every row with a key belongs to a group of the output, and a key all of
  whose rows have a missing value is in the output with a NaN mean.
\<close>

theorem groupby_mean_nan_rows:
  "(\<forall>g\<in>set (groupby_mean key col rows).
      (\<exists>r\<in>set rows. key r = Some (fst g)) \<and>
      (snd g = None \<longleftrightarrow> (\<forall>r\<in>set rows. key r = Some (fst g) \<longrightarrow> col r = None))) \<and>
   (\<forall>r\<in>set rows. \<forall>k. key r = Some k \<longrightarrow> (\<exists>m. (k, m) \<in> set (groupby_mean key col rows))) \<and>
   (\<forall>r\<in>set rows. \<forall>k. key r = Some k \<and> (\<forall>r'\<in>set rows. key r' = Some k \<longrightarrow> col r' = None) \<longrightarrow>
      (k, None) \<in> set (groupby_mean key col rows))"
proof (intro conjI ballI allI impI)
  fix g assume "g \<in> set (groupby_mean key col rows)"
  then have "(fst g, snd g) \<in> set (groupby_mean key col rows)" by simp
  then have mem: "Some (fst g) \<in> key ` set rows"
    and m: "snd g = arithmetic_mean (dropna (map col (filter (\<lambda>r. key r = Some (fst g)) rows)))"
    unfolding groupby_mean_mem by simp_all
  from mem show "\<exists>r\<in>set rows. key r = Some (fst g)" by force
  show "snd g = None \<longleftrightarrow> (\<forall>r\<in>set rows. key r = Some (fst g) \<longrightarrow> col r = None)"
    unfolding m arithmetic_mean_def by (auto simp: dropna_Nil_iff)
next
  fix r k assume "r \<in> set rows" "key r = Some k"
  then have "Some k \<in> key ` set rows" by force
  then show "\<exists>m. (k, m) \<in> set (groupby_mean key col rows)"
    unfolding groupby_mean_mem by simp
next
  fix r k
  assume r: "r \<in> set rows"
    and k: "key r = Some k \<and> (\<forall>r'\<in>set rows. key r' = Some k \<longrightarrow> col r' = None)"
  from r k have "Some k \<in> key ` set rows" by force
  moreover from k have "dropna (map col (filter (\<lambda>r. key r = Some k) rows)) = []"
    unfolding dropna_Nil_iff by auto
  ultimately show "(k, None) \<in> set (groupby_mean key col rows)"
    unfolding groupby_mean_mem by (simp add: arithmetic_mean_def)
qed

theorem groupby_mean_nan_rows_witness:
  "list_ex (\<lambda>r. wbincome2024 r = Some ''High income'') [tobacco_sample ''Lebanon'' 2020 ''Male'' None] \<and>
   list_all (\<lambda>r. prevalence r = None) [tobacco_sample ''Lebanon'' 2020 ''Male'' None] \<and>
   (''High income'', None) \<in> set (groupby_mean wbincome2024 prevalence
      [tobacco_sample ''Lebanon'' 2020 ''Male'' None])"
proof -
  let ?r = "tobacco_sample ''Lebanon'' 2020 ''Male'' None"
  have key: "wbincome2024 ?r = Some ''High income''" and col: "prevalence ?r = None"
    by (simp_all add: tobacco_sample_def)
  from groupby_mean_nan_rows [of wbincome2024 prevalence "[?r]"]
  have "\<forall>r\<in>set [?r]. \<forall>k. wbincome2024 r = Some k \<and>
      (\<forall>r'\<in>set [?r]. wbincome2024 r' = Some k \<longrightarrow> prevalence r' = None) \<longrightarrow>
      (k, None) \<in> set (groupby_mean wbincome2024 prevalence [?r])"
    by blast
  with key col have "(''High income'', None) \<in> set (groupby_mean wbincome2024 prevalence [?r])"
    by simp
  with key col show ?thesis by simp
qed

section \<open>Top-n selection\<close>

lemma nlargest_ranked:
  "nlargest n col rows = (if n \<le> 0 then [] else take (nat n) (ranked col rows))"
  by (simp add: nlargest_def ranked_def Let_def)

lemma mset_ranked: "mset (ranked col rows) = mset rows"
  by (simp add: ranked_def)

lemma sorted_wrt_ranked: "sorted_wrt (\<lambda>r s. no_less (col r) (col s)) (ranked col rows)"
proof -
  let ?f = "\<lambda>r. neg_cell (col r)"
  let ?D = "sort_key ?f (filter (\<lambda>r. col r \<noteq> None) rows)"
  let ?N = "filter (\<lambda>r. col r = None) rows"
  have "sorted (map ?f ?D)" by (rule sorted_sort_key)
  then have le: "sorted_wrt (\<lambda>r s. ?f r \<le> ?f s) ?D" by (simp only: sorted_map)
  have D: "sorted_wrt (\<lambda>r s. no_less (col r) (col s)) ?D"
  proof (rule sorted_wrt_mono_rel[OF _ le])
    fix r s assume "r \<in> set ?D" "s \<in> set ?D" "?f r \<le> ?f s"
    then show "no_less (col r) (col s)"
      by (auto simp: no_less_def neg_cell_def)
  qed
  have N: "sorted_wrt (\<lambda>r s. no_less (col r) (col s)) ?N"
    by (rule sorted_wrt_mono_rel[OF _ sorted_wrt_true]) (simp add: no_less_def)
  have DN: "\<forall>r\<in>set ?D. \<forall>s\<in>set ?N. no_less (col r) (col s)"
    by (simp add: no_less_def)
  show ?thesis
    unfolding ranked_def sorted_wrt_append using D N DN by (intro conjI)
qed

lemma stable_ranked: "filter (\<lambda>r. col r = v) (ranked col rows) = filter (\<lambda>r. col r = v) rows"
proof (cases v)
  case None
  have "filter (\<lambda>r. col r = None) (sort_key (\<lambda>r. neg_cell (col r)) (filter (\<lambda>r. col r \<noteq> None) rows)) = []"
    by (simp add: filter_empty_conv)
  then show ?thesis by (simp add: ranked_def None)
next
  case (Some x)
  let ?f = "\<lambda>r. neg_cell (col r)"
  let ?drp = "filter (\<lambda>r. col r \<noteq> None) rows"
  have "filter (\<lambda>r. col r = Some x) (sort_key ?f ?drp) = filter (\<lambda>r. ?f r = - x) (sort_key ?f ?drp)"
    by (rule filter_cong) (auto simp: neg_cell_def)
  also have "\<dots> = filter (\<lambda>r. ?f r = - x) ?drp" by (rule sort_key_stable)
  also have "\<dots> = filter (\<lambda>r. col r = Some x) ?drp"
    by (rule filter_cong) (auto simp: neg_cell_def)
  also have "\<dots> = filter (\<lambda>r. col r = Some x) rows"
    by (simp add: conj_commute) (metis (mono_tags, lifting) filter_cong option.distinct(1))
  finally have D: "filter (\<lambda>r. col r = Some x) (sort_key ?f ?drp) = filter (\<lambda>r. col r = Some x) rows" .
  have N: "filter (\<lambda>r. col r = Some x) (filter (\<lambda>r. col r = None) rows) = []"
    by (auto simp: filter_empty_conv)
  show ?thesis unfolding ranked_def Some filter_append D N by simp
qed

lemma take_ranked_props:
  fixes k :: nat and col :: "'a \<Rightarrow> real option" and rows :: "'a list"
  defines "out \<equiv> take k (ranked col rows)"
  shows "length out \<le> k"
    and "mset out \<subseteq># mset rows"
    and "\<forall>r\<in>set out. \<forall>s\<in>#(mset rows - mset out). no_less (col r) (col s)"
    and "sorted_wrt (\<lambda>r s. no_less (col r) (col s)) out"
    and "\<forall>v. prefix (filter (\<lambda>r. col r = v) out) (filter (\<lambda>r. col r = v) rows)"
proof -
  let ?S = "ranked col rows"
  let ?rest = "drop k ?S"
  have split: "?S = out @ ?rest" by (simp add: out_def)
  have ms: "mset rows = mset out + mset ?rest"
    using mset_ranked[of col rows] split by (metis mset_append)
  show "length out \<le> k" by (simp add: out_def)
  show "mset out \<subseteq># mset rows" unfolding ms by simp
  have sw: "sorted_wrt (\<lambda>r s. no_less (col r) (col s)) (out @ ?rest)"
    using sorted_wrt_ranked[of col rows] split by simp
  from sw show "sorted_wrt (\<lambda>r s. no_less (col r) (col s)) out"
    unfolding sorted_wrt_append by blast
  from sw have "\<forall>r\<in>set out. \<forall>s\<in>set ?rest. no_less (col r) (col s)"
    unfolding sorted_wrt_append by blast
  then show "\<forall>r\<in>set out. \<forall>s\<in>#(mset rows - mset out). no_less (col r) (col s)"
    unfolding ms by simp
  show "\<forall>v. prefix (filter (\<lambda>r. col r = v) out) (filter (\<lambda>r. col r = v) rows)"
  proof
    fix v
    have "filter (\<lambda>r. col r = v) rows = filter (\<lambda>r. col r = v) (out @ ?rest)"
      using stable_ranked[of col v rows] split by simp
    then show "prefix (filter (\<lambda>r. col r = v) out) (filter (\<lambda>r. col r = v) rows)"
      by (simp add: prefix_def)
  qed
qed

text \<open>
  Claim C6. \<open>nlargest(5, column)\<close> returns at most five rows of the frame; every
  returned row is no less than every row left out; the returned rows are in descending
  order; and among rows of equal value the ones met first are returned, in the order of
  the frame. A NaN value ranks below every number.
\<close>

theorem nlargest_top_five:
  "length (nlargest 5 col rows) \<le> 5 \<and>
   mset (nlargest 5 col rows) \<subseteq># mset rows \<and>
   (\<forall>r\<in>set (nlargest 5 col rows). \<forall>s\<in>#(mset rows - mset (nlargest 5 col rows)).
      no_less (col r) (col s)) \<and>
   sorted_wrt (\<lambda>r s. no_less (col r) (col s)) (nlargest 5 col rows) \<and>
   (\<forall>v. prefix (filter (\<lambda>r. col r = v) (nlargest 5 col rows)) (filter (\<lambda>r. col r = v) rows))"
proof -
  have eq: "nlargest 5 col rows = take 5 (ranked col rows)"
    by (simp add: nlargest_ranked)
  show ?thesis
    unfolding eq using take_ranked_props[where k=5 and col=col and rows=rows] by (intro conjI)
qed

theorem nlargest_top_five_witness:
  "top_prev
     [tobacco_sample ''A'' 2020 ''Male'' (Some 3), tobacco_sample ''B'' 2020 ''Male'' (Some 7),
      tobacco_sample ''C'' 2020 ''Male'' None, tobacco_sample ''D'' 2020 ''Male'' (Some 7),
      tobacco_sample ''E'' 2020 ''Male'' (Some 1), tobacco_sample ''F'' 2020 ''Male'' (Some 3),
      tobacco_sample ''G'' 2020 ''Male'' (Some 2)]
     = [(''B'', Some 7), (''D'', Some 7), (''A'', Some 3), (''F'', Some 3), (''G'', Some 2)] \<and>
   (''G'', Some 2) \<in> set (nlargest 5 snd
      [(''A'', Some 3), (''B'', Some 7), (''C'', None), (''D'', Some 7), (''E'', Some 1),
       (''F'', Some 3), (''G'', Some 2)]) \<and>
   (''E'', Some 1) \<in># mset [(''A'', Some 3), (''B'', Some 7), (''C'', None), (''D'', Some 7),
       (''E'', Some 1), (''F'', Some 3), (''G'', Some (2::real))] -
     mset (nlargest 5 snd
      [(''A'', Some 3), (''B'', Some 7), (''C'', None), (''D'', Some 7), (''E'', Some 1),
       (''F'', Some 3), (''G'', Some 2)]) \<and>
   no_less (Some 2) (Some 1)"
proof -
  let ?rows = "[(''A'', Some 3), (''B'', Some 7), (''C'', None), (''D'', Some 7), (''E'', Some 1),
       (''F'', Some 3), (''G'', Some (2::real))]"
  have agg: "groupby_mean by_country prevalence
     [tobacco_sample ''A'' 2020 ''Male'' (Some 3), tobacco_sample ''B'' 2020 ''Male'' (Some 7),
      tobacco_sample ''C'' 2020 ''Male'' None, tobacco_sample ''D'' 2020 ''Male'' (Some 7),
      tobacco_sample ''E'' 2020 ''Male'' (Some 1), tobacco_sample ''F'' 2020 ''Male'' (Some 3),
      tobacco_sample ''G'' 2020 ''Male'' (Some 2)] = ?rows"
    by (simp add: tobacco_sample_def groupby_mean_def group_row_def group_mean_def nan_div_def
      cell_sum_def cell_nobs_def by_country_def)
  have out: "nlargest 5 snd ?rows
     = [(''B'', Some 7), (''D'', Some 7), (''A'', Some 3), (''F'', Some 3), (''G'', Some 2)]"
    by (simp add: nlargest_def neg_cell_def)
  have r: "(''G'', Some 2) \<in> set (nlargest 5 snd ?rows)"
    unfolding out by simp
  have s: "(''E'', Some 1) \<in># mset ?rows - mset (nlargest 5 snd ?rows)"
    unfolding out by simp
  from nlargest_top_five [of snd ?rows] r s have "no_less (snd (''G'', Some (2::real))) (snd (''E'', Some (1::real)))"
    by blast
  with agg out r s show ?thesis by (simp add: top_prev_def)
qed

section \<open>Linear trend\<close>

lemma one_year:
  assumes "card (fst ` set series) < 2" "p \<in> set series" "q \<in> set series"
  shows "fst p = fst q"
proof -
  have "finite (fst ` set series)" by simp
  then have iff: "card (fst ` set series) \<le> Suc 0 \<longleftrightarrow>
      (\<forall>a\<in>fst ` set series. \<forall>b\<in>fst ` set series. a = b)"
    by (rule card_le_Suc0_iff_eq)
  from assms(1) have "card (fst ` set series) \<le> Suc 0" by linarith
  with iff have "\<forall>a\<in>fst ` set series. \<forall>b\<in>fst ` set series. a = b" by (simp only:)
  moreover have "fst p \<in> fst ` set series" "fst q \<in> fst ` set series"
    using assms(2,3) by blast+
  ultimately show ?thesis by blast
qed

text \<open>
  Whatever line the fit returns, the forecast has one point per requested year, in the
  order requested, with the value of that line at the year as it is.
\<close>

lemma forecast_line:
  "forecast lstsq series yrs = Inr pts \<Longrightarrow>
     \<exists>mb. polyfit lstsq series = Inr mb \<and> pts = map (\<lambda>yr. (yr, line_at mb yr)) yrs"
  by (auto simp: forecast_def split: sum.splits)

lemma forecast_years:
  "forecast lstsq series yrs = Inr pts \<Longrightarrow> map fst pts = yrs"
  by (auto simp: forecast_def comp_def split: sum.splits)

lemma polyfit_one_year:
  assumes "card (fst ` set series) < 2" and "\<forall>p\<in>set series. snd p \<noteq> None \<and> fst p \<noteq> 0"
    and "series \<noteq> []"
  shows "polyfit lstsq series =
     Inr (Some (fst (min_norm_fit (points series))), Some (snd (min_norm_fit (points series))))"
proof -
  from assms(2) have nonan: "\<not> list_ex (\<lambda>p. snd p = None) series"
    by (simp add: list_ex_iff)
  from assms(3) have hd_mem: "hd series \<in> set series" by simp
  with assms(2) have "fst (hd series) \<noteq> 0" by blast
  with hd_mem have nonzero: "\<not> list_all (\<lambda>p. fst p = 0) series"
    unfolding list_all_iff by blast
  from assms(3) have hd_pts: "hd (points series) = (real_of_int (fst (hd series)), cell_sum (snd (hd series)))"
    by (simp add: points_def hd_map)
  have all: "list_all (\<lambda>r. fst r = fst (hd (points series))) (points series)"
    unfolding list_all_iff hd_pts
  proof
    fix r assume "r \<in> set (points series)"
    then obtain p where p: "p \<in> set series" "r = (real_of_int (fst p), cell_sum (snd p))"
      by (auto simp: points_def)
    from one_year[OF assms(1) p(1) hd_mem] p(2)
    show "fst r = fst (real_of_int (fst (hd series)), cell_sum (snd (hd series)))" by simp
  qed
  from all nonan nonzero assms(3) show ?thesis
    by (simp add: polyfit_def Let_def)
qed

lemma forecast_single_point:
  "forecast lstsq [(2020, Some 5)] [2025, 2030]
     = Inr [(2025, Some (4045 / 808)), (2030, Some (2025 / 404))]"
  by (simp add: forecast_def polyfit_def points_def min_norm_fit_def line_at_def cell_sum_def)

lemma forecast_nan_mean:
  "forecast lstsq [(2019, Some 4), (2020, None)] [2025, 2030] = Inr [(2025, None), (2030, None)]"
  by (simp add: forecast_def polyfit_def line_at_def)

lemma prev_ts_example:
  "prev_ts (select_country ''Lebanon'' df_tob_example)
     = [((2018, ''Male''), Some 20), ((2019, ''Male''), Some 22), ((2020, ''Male''), Some 24)]"
  by (simp add: prev_ts_def select_country_def df_tob_example_def tobacco_sample_def
      groupby_mean_def group_row_def group_mean_def nan_div_def cell_sum_def cell_nobs_def
      by_year_sex_def)

lemma forecast_male_example:
  "forecast lstsq (df_sex ''Male'' (prev_ts (select_country ''Lebanon'' df_tob_example)))
     years_future
     = Inr [(2025, Some (fst (lstsq [(2018, 20), (2019, 22), (2020, 24)]) * 2025
                         + snd (lstsq [(2018, 20), (2019, 22), (2020, 24)]))),
            (2030, Some (fst (lstsq [(2018, 20), (2019, 22), (2020, 24)]) * 2030
                         + snd (lstsq [(2018, 20), (2019, 22), (2020, 24)])))]"
  unfolding prev_ts_example
  by (simp add: df_sex_def years_future_def forecast_def polyfit_def points_def line_at_def
      cell_sum_def Let_def)

lemma forecast_female_example:
  "forecast lstsq (df_sex ''Female'' (prev_ts (select_country ''Lebanon'' df_tob_example)))
     years_future = Inl TypeError"
  unfolding prev_ts_example by (simp add: df_sex_def forecast_def polyfit_def)

lemma forecasts_example:
  "forecasts lstsq [''Male'', ''Female''] (prev_ts (select_country ''Lebanon'' df_tob_example))
     years_future = Inl TypeError"
  by (simp add: forecast_male_example forecast_female_example)

lemma prev_ts_jordan:
  "prev_ts (select_country ''Jordan'' df_tob_example)
     = [((2020, ''Female''), Some 9), ((2020, ''Male''), Some 11)]"
  by (simp add: prev_ts_def select_country_def df_tob_example_def tobacco_sample_def
      groupby_mean_def group_row_def group_mean_def nan_div_def cell_sum_def cell_nobs_def
      by_year_sex_def)

lemma forecasts_jordan:
  "forecasts lstsq [''Male'', ''Female''] (prev_ts (select_country ''Jordan'' df_tob_example))
     years_future
     = Inr [(2025, ''Male'', Some (8899 / 808)), (2030, ''Male'', Some (4455 / 404)),
            (2025, ''Female'', Some (7281 / 808)), (2030, ''Female'', Some (3645 / 404))]"
  unfolding prev_ts_jordan
  by (simp add: df_sex_def years_future_def forecast_def polyfit_def points_def line_at_def
      min_norm_fit_def cell_sum_def Let_def)

lemma mort_ts_jordan: "mort_ts (select_country ''Jordan'' df_mor_example) = []"
  by (simp add: mort_ts_def select_country_def df_mor_example_def mortality_sample_def
      groupby_mean_def)

lemma forecasts_mort_jordan:
  "forecasts lstsq [''Male'', ''Female''] (mort_ts (select_country ''Jordan'' df_mor_example))
     years_future = Inl TypeError"
  unfolding mort_ts_jordan by (simp add: df_sex_def forecast_def polyfit_def)

text \<open>
  Claim C4, as stated, fails: for the one point (2020, 5) \<open>np.polyfit\<close> raises
  nothing; it returns the line of least norm, and the forecast has a value for both
  future years.
\<close>

theorem forecast_single_point_counterexample:
  "\<forall>lstsq. forecast lstsq [(2020, Some 5)] years_future
       = Inr [(2025, Some (4045 / 808)), (2030, Some (2025 / 404))] \<and>
     card (fst ` set [(2020::int, Some (5::real))]) = 1"
  using forecast_single_point by (simp add: years_future_def)

text \<open>
  Claim C4, amended. For a series of numbers with fewer than two distinct years, none of
  them zero: the empty series raises TypeError; any other raises nothing and is
  forecast with the line \<open>m = ybar / (2 * x0)\<close>, \<open>b = ybar / 2\<close>, where \<open>x0\<close> is
  the one year and \<open>ybar\<close> the mean of the values.
\<close>

theorem forecast_one_year:
  assumes "card (fst ` set series) < 2"
    and "\<forall>p\<in>set series. snd p \<noteq> None \<and> fst p \<noteq> 0"
  shows "forecast lstsq series yrs =
     (if series = [] then Inl TypeError
      else
        let ybar = sum_list (map (\<lambda>p. cell_sum (snd p)) series) / real (length series);
            x0 = real_of_int (fst (hd series))
        in Inr (map (\<lambda>yr. (yr, Some (ybar / (2 * x0) * real_of_int yr + ybar / 2))) yrs))"
proof (cases "series = []")
  case True
  then show ?thesis by (simp add: forecast_def polyfit_def)
next
  case False
  have "min_norm_fit (points series) =
     (sum_list (map (\<lambda>p. cell_sum (snd p)) series) / real (length series)
        / (2 * real_of_int (fst (hd series))),
      sum_list (map (\<lambda>p. cell_sum (snd p)) series) / real (length series) / 2)"
    using False by (simp add: min_norm_fit_def points_def Let_def hd_map comp_def)
  with False polyfit_one_year[OF assms False, of lstsq] show ?thesis
    by (simp add: forecast_def Let_def line_at_def)
qed

theorem forecast_one_year_witness:
  "\<forall>lstsq.
     card (fst ` set [(2019::int, Some (4::real)), (2019, Some 8)]) < 2 \<and>
     list_all (\<lambda>p. snd p \<noteq> None \<and> fst p \<noteq> 0) [(2019::int, Some (4::real)), (2019, Some 8)] \<and>
     forecast lstsq [(2019, Some 4), (2019, Some 8)] [2025, 2030]
       = Inr [(2025, Some (2025 / 673 + 3)), (2030, Some (2030 / 673 + 3))] \<and>
     forecast lstsq [] [2025, 2030] = Inl TypeError"
proof
  fix lstsq :: "(real \<times> real) list \<Rightarrow> real \<times> real"
  let ?s = "[(2019::int, Some (4::real)), (2019, Some 8)]"
  have h1: "card (fst ` set ?s) < 2" by simp
  have h2: "\<forall>p\<in>set ?s. snd p \<noteq> None \<and> fst p \<noteq> 0" by simp
  have e1: "card (fst ` set ([] :: (int \<times> real option) list)) < 2" by simp
  have e2: "\<forall>p\<in>set ([] :: (int \<times> real option) list). snd p \<noteq> None \<and> fst p \<noteq> 0" by simp
  from forecast_one_year[OF h1 h2, of lstsq "[2025, 2030]"]
  have a: "forecast lstsq ?s [2025, 2030]
      = Inr [(2025, Some (2025 / 673 + 3)), (2030, Some (2030 / 673 + 3))]"
    by (simp add: cell_sum_def)
  from forecast_one_year[OF e1 e2, of lstsq "[2025, 2030]"]
  have b: "forecast lstsq [] [2025, 2030] = Inl TypeError" by simp
  from h1 h2 a b show "card (fst ` set ?s) < 2 \<and>
     list_all (\<lambda>p. snd p \<noteq> None \<and> fst p \<noteq> 0) ?s \<and>
     forecast lstsq ?s [2025, 2030]
       = Inr [(2025, Some (2025 / 673 + 3)), (2030, Some (2030 / 673 + 3))] \<and>
     forecast lstsq [] [2025, 2030] = Inl TypeError" by simp
qed

text \<open>
  Claim C7, as stated, fails: for Lebanon in the sample frame the male series is
  forecast, the female series is empty and raises TypeError, and the loop over the sexes,
  and the page, end with that error: no forecast point is produced.
\<close>

theorem forecasts_abort_counterexample:
  "\<forall>lstsq.
     forecast lstsq (df_sex ''Male'' (prev_ts (select_country ''Lebanon'' df_tob_example)))
       years_future
       = Inr [(2025, Some (fst (lstsq [(2018, 20), (2019, 22), (2020, 24)]) * 2025
                           + snd (lstsq [(2018, 20), (2019, 22), (2020, 24)]))),
              (2030, Some (fst (lstsq [(2018, 20), (2019, 22), (2020, 24)]) * 2030
                           + snd (lstsq [(2018, 20), (2019, 22), (2020, 24)])))] \<and>
     forecast lstsq (df_sex ''Female'' (prev_ts (select_country ''Lebanon'' df_tob_example)))
       years_future = Inl TypeError \<and>
     forecasts lstsq [''Male'', ''Female''] (prev_ts (select_country ''Lebanon'' df_tob_example))
       years_future = Inl TypeError \<and>
     snd (dashboard lstsq ''Lebanon'' df_tob_example df_mor_example) = Some TypeError"
  using forecast_male_example forecast_female_example forecasts_example
  by (simp add: dashboard_def Let_def)

text \<open>
  Claim C7, amended. The loop over the sexes produces forecast points only when the fit of
  both sexes succeeds, and then the male points followed by the female ones; an error of
  either fit is the result of the loop. An error of the prevalence loop ends the page
  before any chart over time; an error of the mortality loop ends it after the chart of
  the prevalence; the page has both charts and no error only when both loops succeed.
\<close>

theorem forecasts_all_or_nothing:
  "(forecast lstsq (df_sex ''Male'' ts) yrs = Inl e \<longrightarrow>
      forecasts lstsq [''Male'', ''Female''] ts yrs = Inl e) \<and>
   (forecast lstsq (df_sex ''Male'' ts) yrs = Inr pm \<and>
    forecast lstsq (df_sex ''Female'' ts) yrs = Inl e \<longrightarrow>
      forecasts lstsq [''Male'', ''Female''] ts yrs = Inl e) \<and>
   (forecast lstsq (df_sex ''Male'' ts) yrs = Inr pm \<and>
    forecast lstsq (df_sex ''Female'' ts) yrs = Inr pf \<longrightarrow>
      forecasts lstsq [''Male'', ''Female''] ts yrs =
        Inr (map (\<lambda>p. (fst p, ''Male'', snd p)) pm @ map (\<lambda>p. (fst p, ''Female'', snd p)) pf)) \<and>
   (forecasts lstsq [''Male'', ''Female''] (prev_ts (select_country c df_tob)) years_future = Inl e \<longrightarrow>
      snd (dashboard lstsq c df_tob df_mor) = Some e \<and>
      filter is_over_time (fst (dashboard lstsq c df_tob df_mor)) = []) \<and>
   (forecasts lstsq [''Male'', ''Female''] (prev_ts (select_country c df_tob)) years_future
      = Inr df_fut \<and>
    forecasts lstsq [''Male'', ''Female''] (mort_ts (select_country c df_mor)) years_future
      = Inl e \<longrightarrow>
      snd (dashboard lstsq c df_tob df_mor) = Some e \<and>
      filter is_over_time (fst (dashboard lstsq c df_tob df_mor))
        = [Over_Time (prev_ts (select_country c df_tob)) df_fut]) \<and>
   (forecasts lstsq [''Male'', ''Female''] (prev_ts (select_country c df_tob)) years_future
      = Inr df_fut \<and>
    forecasts lstsq [''Male'', ''Female''] (mort_ts (select_country c df_mor)) years_future
      = Inr df_fut2 \<longrightarrow>
      snd (dashboard lstsq c df_tob df_mor) = None \<and>
      filter is_over_time (fst (dashboard lstsq c df_tob df_mor))
        = [Over_Time (prev_ts (select_country c df_tob)) df_fut,
           Over_Time (mort_ts (select_country c df_mor)) df_fut2])"
  by (simp add: dashboard_def Let_def)

theorem forecasts_all_or_nothing_witness:
  "\<forall>lstsq.
     forecasts lstsq [''Male'', ''Female''] (prev_ts (select_country ''Lebanon'' df_tob_example))
       years_future = Inl TypeError \<and>
     snd (dashboard lstsq ''Lebanon'' df_tob_example df_mor_example) = Some TypeError \<and>
     filter is_over_time (fst (dashboard lstsq ''Lebanon'' df_tob_example df_mor_example)) = [] \<and>
     forecasts lstsq [''Male'', ''Female''] (mort_ts (select_country ''Jordan'' df_mor_example))
       years_future = Inl TypeError \<and>
     snd (dashboard lstsq ''Jordan'' df_tob_example df_mor_example) = Some TypeError \<and>
     filter is_over_time (fst (dashboard lstsq ''Jordan'' df_tob_example df_mor_example))
       = [Over_Time [((2020, ''Female''), Some 9), ((2020, ''Male''), Some 11)]
            [(2025, ''Male'', Some (8899 / 808)), (2030, ''Male'', Some (4455 / 404)),
             (2025, ''Female'', Some (7281 / 808)), (2030, ''Female'', Some (3645 / 404))]]"
proof
  fix lstsq :: "(real \<times> real) list \<Rightarrow> real \<times> real"
  note leb = forecasts_all_or_nothing
    [where lstsq = lstsq and ts = "prev_ts (select_country ''Lebanon'' df_tob_example)"
       and yrs = years_future and e = TypeError and c = "''Lebanon''"
       and df_tob = df_tob_example and df_mor = df_mor_example]
  from leb forecast_male_example[of lstsq] forecast_female_example[of lstsq]
  have f: "forecasts lstsq [''Male'', ''Female'']
      (prev_ts (select_country ''Lebanon'' df_tob_example)) years_future = Inl TypeError"
    by blast
  with leb have page: "snd (dashboard lstsq ''Lebanon'' df_tob_example df_mor_example) = Some TypeError \<and>
     filter is_over_time (fst (dashboard lstsq ''Lebanon'' df_tob_example df_mor_example)) = []"
    by blast
  note jor = forecasts_all_or_nothing
    [where lstsq = lstsq and e = TypeError and c = "''Jordan''"
       and df_tob = df_tob_example and df_mor = df_mor_example
       and df_fut = "[(2025, ''Male'', Some (8899 / 808)), (2030, ''Male'', Some (4455 / 404)),
             (2025, ''Female'', Some (7281 / 808)), (2030, ''Female'', Some (3645 / 404))]"]
  from jor forecasts_jordan[of lstsq] forecasts_mort_jordan[of lstsq]
  have page2: "snd (dashboard lstsq ''Jordan'' df_tob_example df_mor_example) = Some TypeError \<and>
     filter is_over_time (fst (dashboard lstsq ''Jordan'' df_tob_example df_mor_example))
       = [Over_Time (prev_ts (select_country ''Jordan'' df_tob_example))
            [(2025, ''Male'', Some (8899 / 808)), (2030, ''Male'', Some (4455 / 404)),
             (2025, ''Female'', Some (7281 / 808)), (2030, ''Female'', Some (3645 / 404))]]"
    by blast
  from f page page2 forecasts_mort_jordan[of lstsq]
  show "forecasts lstsq [''Male'', ''Female''] (prev_ts (select_country ''Lebanon'' df_tob_example))
       years_future = Inl TypeError \<and>
     snd (dashboard lstsq ''Lebanon'' df_tob_example df_mor_example) = Some TypeError \<and>
     filter is_over_time (fst (dashboard lstsq ''Lebanon'' df_tob_example df_mor_example)) = [] \<and>
     forecasts lstsq [''Male'', ''Female''] (mort_ts (select_country ''Jordan'' df_mor_example))
       years_future = Inl TypeError \<and>
     snd (dashboard lstsq ''Jordan'' df_tob_example df_mor_example) = Some TypeError \<and>
     filter is_over_time (fst (dashboard lstsq ''Jordan'' df_tob_example df_mor_example))
       = [Over_Time [((2020, ''Female''), Some 9), ((2020, ''Male''), Some 11)]
            [(2025, ''Male'', Some (8899 / 808)), (2030, ''Male'', Some (4455 / 404)),
             (2025, ''Female'', Some (7281 / 808)), (2030, ''Female'', Some (3645 / 404))]]"
    unfolding prev_ts_jordan by blast
qed

section \<open>The page\<close>

text \<open>
  Claim C8. Each of the four key metrics is the arithmetic mean of the values present in
  the rows of the selected country and the sex, it is undefined (NaN), not zero, when
  there is no such row, and the page shows these four values as they are.
\<close>

theorem key_metrics_slice_means:
  "male_prev c df_tob =
     arithmetic_mean (dropna (map prevalence
       (filter (\<lambda>r. country r = Some c \<and> sex r = Some ''Male'') df_tob))) \<and>
   female_prev c df_tob =
     arithmetic_mean (dropna (map prevalence
       (filter (\<lambda>r. country r = Some c \<and> sex r = Some ''Female'') df_tob))) \<and>
   male_mort c df_mor =
     arithmetic_mean (dropna (map mortality
       (filter (\<lambda>r. country r = Some c \<and> sex r = Some ''Male'') df_mor))) \<and>
   female_mort c df_mor =
     arithmetic_mean (dropna (map mortality
       (filter (\<lambda>r. country r = Some c \<and> sex r = Some ''Female'') df_mor))) \<and>
   (filter (\<lambda>r. country r = Some c \<and> sex r = Some ''Male'') df_tob = [] \<longrightarrow>
      male_prev c df_tob = None) \<and>
   (filter (\<lambda>r. country r = Some c \<and> sex r = Some ''Female'') df_tob = [] \<longrightarrow>
      female_prev c df_tob = None) \<and>
   (filter (\<lambda>r. country r = Some c \<and> sex r = Some ''Male'') df_mor = [] \<longrightarrow>
      male_mort c df_mor = None) \<and>
   (filter (\<lambda>r. country r = Some c \<and> sex r = Some ''Female'') df_mor = [] \<longrightarrow>
      female_mort c df_mor = None) \<and>
   hd (fst (dashboard lstsq c df_tob df_mor)) =
     Key_Metrics (male_prev c df_tob) (female_prev c df_tob)
       (male_mort c df_mor) (female_mort c df_mor)"
proof -
  have hd: "hd (fst (dashboard lstsq c df_tob df_mor)) =
     Key_Metrics (male_prev c df_tob) (female_prev c df_tob)
       (male_mort c df_mor) (female_mort c df_mor)"
    by (simp add: dashboard_def Let_def split: sum.splits)
  show ?thesis
    unfolding male_prev_def female_prev_def male_mort_def female_mort_def sex_mean_arithmetic
    using hd[unfolded male_prev_def female_prev_def male_mort_def female_mort_def
        sex_mean_arithmetic]
    by (simp add: arithmetic_mean_Nil)
qed

theorem key_metrics_slice_means_witness:
  "filter (\<lambda>r. country r = Some ''Lebanon'' \<and> sex r = Some ''Female'') df_tob_example = [] \<and>
   female_prev ''Lebanon'' df_tob_example = None \<and>
   male_prev ''Lebanon'' df_tob_example = Some 22"
proof -
  note inst = key_metrics_slice_means [where c = "''Lebanon''" and df_tob = df_tob_example]
  have empty: "filter (\<lambda>r. country r = Some ''Lebanon'' \<and> sex r = Some ''Female'') df_tob_example = []"
    by (simp add: df_tob_example_def tobacco_sample_def)
  from inst have "filter (\<lambda>r. country r = Some ''Lebanon'' \<and> sex r = Some ''Female'') df_tob_example = []
      \<longrightarrow> female_prev ''Lebanon'' df_tob_example = None"
    by blast
  with empty have female: "female_prev ''Lebanon'' df_tob_example = None" by blast
  from inst have "male_prev ''Lebanon'' df_tob_example =
     arithmetic_mean (dropna (map prevalence
       (filter (\<lambda>r. country r = Some ''Lebanon'' \<and> sex r = Some ''Male'') df_tob_example)))"
    by blast
  then have male: "male_prev ''Lebanon'' df_tob_example = Some 22"
    by (simp add: df_tob_example_def tobacco_sample_def arithmetic_mean_def)
  from empty female male show ?thesis by blast
qed

text \<open>
  Claim C9. The table of the choropleth map is the grouped mean of the whole mortality
  frame by country and iso3: it is the same for any two selected countries.
\<close>

theorem map_df_independent_of_country:
  "choropleth_tables (fst (dashboard lstsq c1 df_tob df_mor)) =
     choropleth_tables (fst (dashboard lstsq c2 df_tob df_mor)) \<and>
   choropleth_tables (fst (dashboard lstsq c1 df_tob df_mor)) =
     [groupby_mean by_country_iso3 mortality df_mor]"
  by (simp add: dashboard_def Let_def map_df_def split: sum.splits)

end
